theory Spec2Isabelle
  imports Main
begin

section \<open>Python strings and lists\<close>

text \<open>
  The exceptions the two scripts can raise. Neither script defines an exception class of
  its own; these are the built-in ones and those of the libraries it calls.
\<close>

datatype error =
    IndexError
  | KeyError int
  | UnboundLocalError string
  | FileNotFoundError string
  | UnicodeDecodeError string
  | SameFileError string
  | IsADirectoryError string
  | FileExistsError string
  | NotADirectoryError string
  | ValueError string
  | StopIteration
  | ReadTimeout

text \<open>
  \<open>s.split(sep)\<close> for a non-empty separator: cut at every occurrence of \<open>sep\<close>, found
  from left to right without overlap. \<open>cur\<close> holds the piece read so far. (Python raises
  ValueError for an empty separator; both scripts pass literals.)
\<close>

function split_from :: "string \<Rightarrow> string \<Rightarrow> string \<Rightarrow> string list" where
  "split_from sep cur s =
     (if s = [] then [cur]
      else if sep \<noteq> [] \<and> take (length sep) s = sep
        then cur # split_from sep [] (drop (length sep) s)
      else split_from sep (cur @ [hd s]) (tl s))"
  by pat_completeness auto
termination
  by (relation "measure (\<lambda>(sep, cur, s). length s)") auto

declare split_from.simps [simp del]

definition py_split :: "string \<Rightarrow> string \<Rightarrow> string list" where
  "py_split sep s = split_from sep [] s"

text \<open>\<open>xs[i]\<close> for a non-negative index: IndexError out of range.\<close>

definition item :: "'a list \<Rightarrow> nat \<Rightarrow> error + 'a" where
  "item xs i = (if i < length xs then Inr (xs ! i) else Inl IndexError)"

text \<open>
  A list comprehension \<open>[a for a in xs if p(a)]\<close> whose condition may raise: the first
  exception ends the comprehension.
\<close>

fun filter_raising :: "('a \<Rightarrow> error + bool) \<Rightarrow> 'a list \<Rightarrow> error + 'a list" where
  "filter_raising p [] = Inr []"
| "filter_raising p (x # xs) =
     (case p x of
        Inl e \<Rightarrow> Inl e
      | Inr b \<Rightarrow>
          (case filter_raising p xs of
             Inl e \<Rightarrow> Inl e
           | Inr ys \<Rightarrow> Inr (if b then x # ys else ys)))"

text \<open>\<open>s.replace(old, new)\<close> for a non-empty \<open>old\<close>, again from left to right.\<close>

function replace_from :: "string \<Rightarrow> string \<Rightarrow> string \<Rightarrow> string" where
  "replace_from old new s =
     (if s = [] then []
      else if old \<noteq> [] \<and> take (length old) s = old
        then new @ replace_from old new (drop (length old) s)
      else hd s # replace_from old new (tl s))"
  by pat_completeness auto
termination
  by (relation "measure (\<lambda>(old, new, s). length s)") auto

declare replace_from.simps [simp del]

text \<open>\<open>sub in s\<close> on strings.\<close>

fun contains :: "string \<Rightarrow> string \<Rightarrow> bool" where
  "contains sub [] \<longleftrightarrow> sub = []"
| "contains sub (c # s) \<longleftrightarrow> take (length sub) (c # s) = sub \<or> contains sub s"

text \<open>
  Characters are taken as code points below 256. \<open>str.isspace\<close> there: tab to carriage
  return, the four separators 0x1c to 0x1f, space, 0x85 and 0xa0. \<open>str.isdigit\<close> there:
  the ASCII digits and the superscripts 0xb2, 0xb3 and 0xb9.
\<close>

definition isspace :: "char \<Rightarrow> bool" where
  "isspace c \<longleftrightarrow>
     (let n = (of_char c :: nat)
      in (9 \<le> n \<and> n \<le> 13) \<or> (28 \<le> n \<and> n \<le> 32) \<or> n = 133 \<or> n = 160)"

definition isdigit :: "char \<Rightarrow> bool" where
  "isdigit c \<longleftrightarrow>
     c \<in> set ''0123456789''
     \<or> (let n = (of_char c :: nat) in n = 178 \<or> n = 179 \<or> n = 185)"

definition strip :: "string \<Rightarrow> string" where
  "strip s = rev (dropWhile isspace (rev (dropWhile isspace s)))"

text \<open>\<open>str(n)\<close> and the format \<open>{n:03d}\<close> for a non-negative integer.\<close>

function decimal :: "nat \<Rightarrow> string" where
  "decimal n =
     (if n < 10 then [''0123456789'' ! n]
      else decimal (n div 10) @ [''0123456789'' ! (n mod 10)])"
  by pat_completeness auto
termination
  by (relation "measure id") auto

declare decimal.simps [simp del]

definition format_03d :: "nat \<Rightarrow> string" where
  "format_03d n = replicate (3 - length (decimal n)) (CHR ''0'') @ decimal n"

text \<open>
  \<open>int(s)\<close> on a string: surrounding whitespace, an optional sign, decimal digits that
  single underscores may separate; anything else is a ValueError. The whitespace that
  \<open>int\<close> skips is tab to carriage return, space, 0x85 and 0xa0 (not the separators 0x1c
  to 0x1f), and its digits are the ASCII ones.
\<close>

definition int_space :: "char \<Rightarrow> bool" where
  "int_space c \<longleftrightarrow>
     (let n = (of_char c :: nat)
      in (9 \<le> n \<and> n \<le> 13) \<or> n = 32 \<or> n = 133 \<or> n = 160)"

definition decimal_digit :: "char \<Rightarrow> bool" where
  "decimal_digit c \<longleftrightarrow> c \<in> set ''0123456789''"

fun digits_ok :: "bool \<Rightarrow> string \<Rightarrow> bool" where
  "digits_ok after_digit [] \<longleftrightarrow> after_digit"
| "digits_ok after_digit (c # s) \<longleftrightarrow>
     (if decimal_digit c then digits_ok True s
      else c = CHR ''_'' \<and> after_digit \<and> digits_ok False s)"

definition digits_value :: "string \<Rightarrow> nat" where
  "digits_value s = foldl (\<lambda>acc c. 10 * acc + (of_char c - 48)) 0 (filter decimal_digit s)"

definition py_int :: "string \<Rightarrow> error + int" where
  "py_int s =
     (let t = rev (dropWhile int_space (rev (dropWhile int_space s)));
          neg = (t \<noteq> [] \<and> hd t = CHR ''-'');
          body = (if t \<noteq> [] \<and> (hd t = CHR ''-'' \<or> hd t = CHR ''+'') then tl t else t)
      in if digits_ok False body
         then Inr (if neg then - int (digits_value body) else int (digits_value body))
         else Inl (ValueError s))"

section \<open>Pipeline A: delete\_assessors.py\<close>

subsection \<open>The archive\<close>

text \<open>
  An assessor as \<open>list_project_assessors\<close> returns it: a dict with (at least) these four
  keys.
\<close>

record assessor =
  project_id :: string
  subject_label :: string
  session_label :: string
  label :: string

text \<open>What the script prints, one constructor per \<open>print\<close> call.\<close>

datatype message =
    Retrying
  | NoAssessors
  | WorkingOn int int
  | Deleted string
  | FailedToDelete string
  | DeletingFor "string list" "string list"
  | DeletingOrphaned "string list"

datatype response = Responds | TimesOut

text \<open>
  Modelled from the spec: the archive client (module \<open>my_utils\<close>, which builds the \<open>xnat\<close>
  interface) is not among the sources. The spec gives its operations: list the assessors
  of a project, look an assessor up by its four-part key, check whether it exists, delete
  it. The archive holds assessor records; \<open>pending\<close> is the fate of the coming requests,
  in order (a request beyond the end of the list is answered), and a request that times
  out changes nothing in the archive. \<open>stdout\<close> collects what the script prints.
\<close>

record xnat =
  stored :: "assessor list"
  pending :: "response list"
  stdout :: "message list"

definition print :: "message \<Rightarrow> xnat \<Rightarrow> xnat" where
  "print m x = x\<lparr>stdout := stdout x @ [m]\<rparr>"

definition request :: "xnat \<Rightarrow> response \<times> xnat" where
  "request x =
     (case pending x of
        [] \<Rightarrow> (Responds, x)
      | r # rs \<Rightarrow> (r, x\<lparr>pending := rs\<rparr>))"

definition has_key :: "string \<Rightarrow> string \<Rightarrow> string \<Rightarrow> string \<Rightarrow> assessor \<Rightarrow> bool" where
  "has_key proj subj sess assr a \<longleftrightarrow>
     project_id a = proj \<and> subject_label a = subj \<and> session_label a = sess \<and> label a = assr"

definition exists_assessor :: "xnat \<Rightarrow> string \<Rightarrow> string \<Rightarrow> string \<Rightarrow> string \<Rightarrow> bool" where
  "exists_assessor x proj subj sess assr \<longleftrightarrow> (\<exists>a \<in> set (stored x). has_key proj subj sess assr a)"

definition remove_assessor :: "string \<Rightarrow> string \<Rightarrow> string \<Rightarrow> string \<Rightarrow> xnat \<Rightarrow> xnat" where
  "remove_assessor proj subj sess assr x =
     x\<lparr>stored := filter (\<lambda>a. \<not> has_key proj subj sess assr a) (stored x)\<rparr>"

definition list_project_assessors :: "xnat \<Rightarrow> string \<Rightarrow> (error + assessor list) \<times> xnat" where
  "list_project_assessors x proj =
     (case request x of
        (TimesOut, x') \<Rightarrow> (Inl ReadTimeout, x')
      | (Responds, x') \<Rightarrow> (Inr (filter (\<lambda>a. project_id a = proj) (stored x')), x'))"

subsection \<open>delete\_assessor\<close>

text \<open>
  The value returned is Python's: \<open>Some True\<close>, \<open>Some False\<close>, or \<open>None\<close> when the
  function falls off its end. Both \<open>selected.exists()\<close> and \<open>selected.delete(True)\<close>
  are requests inside the \<open>try\<close>; on ReadTimeout the handler prints, calls
  \<open>delete_assessor\<close> again and drops what the call returns. The recursion ends because
  \<open>pending\<close> is finite.
\<close>

function delete_assessor ::
  "xnat \<Rightarrow> string \<Rightarrow> string \<Rightarrow> string \<Rightarrow> string \<Rightarrow> bool option \<times> xnat" where
  "delete_assessor x proj subj sess assr =
     (case request x of
        (TimesOut, x1) \<Rightarrow>
          (None, snd (delete_assessor (print Retrying x1) proj subj sess assr))
      | (Responds, x1) \<Rightarrow>
          if exists_assessor x1 proj subj sess assr then
            (case request x1 of
               (TimesOut, x2) \<Rightarrow>
                 (None, snd (delete_assessor (print Retrying x2) proj subj sess assr))
             | (Responds, x2) \<Rightarrow> (Some True, remove_assessor proj subj sess assr x2))
          else (Some False, x1))"
  by pat_completeness auto
termination
  by (relation "measure (\<lambda>(x, proj, subj, sess, assr). length (pending x))")
     (auto simp: request_def print_def split: list.splits)

declare delete_assessor.simps [simp del]

subsection \<open>delete\_assessors\<close>

text \<open>\<open>if delete_assessor(...):\<close> tests the truth value; \<open>None\<close> is false.\<close>

definition truthy :: "bool option \<Rightarrow> bool" where
  "truthy r \<longleftrightarrow> r = Some True"

fun delete_loop :: "int \<Rightarrow> int \<Rightarrow> assessor list \<Rightarrow> xnat \<Rightarrow> xnat" where
  "delete_loop total_length count [] x = x"
| "delete_loop total_length count (s # rest) x =
     (let count' = count + 1;
          x1 = print (WorkingOn count' (total_length - count')) x;
          (r, x2) = delete_assessor x1 (project_id s) (subject_label s) (session_label s) (label s);
          x3 = (if truthy r then print (Deleted (label s)) x2
                else print (FailedToDelete (label s)) x2)
      in delete_loop total_length count' rest x3)"

definition delete_assessors :: "xnat \<Rightarrow> assessor list \<Rightarrow> xnat" where
  "delete_assessors x assessors_to_delete =
     (let total_length = int (length assessors_to_delete)
      in if total_length = 0 then print NoAssessors x
         else delete_loop total_length 0 assessors_to_delete x)"

subsection \<open>delete\_all\_assessors\<close>

definition delete_all_assessors :: "xnat \<Rightarrow> string \<Rightarrow> string \<Rightarrow> error option \<times> xnat" where
  "delete_all_assessors x proj subject =
     (case list_project_assessors x proj of
        (Inl e, x1) \<Rightarrow> (Some e, x1)
      | (Inr assessors, x1) \<Rightarrow>
          (None, delete_assessors x1 (filter (\<lambda>a. subject_label a = subject) assessors)))"

subsection \<open>delete\_orphaned\_assessors\<close>

definition subj_mismatch :: "assessor \<Rightarrow> error + bool" where
  "subj_mismatch a =
     (case item (py_split ''-x-'' (label a)) 1 of
        Inl e \<Rightarrow> Inl e
      | Inr t \<Rightarrow> Inr (subject_label a \<noteq> t))"

definition sess_mismatch :: "assessor \<Rightarrow> error + bool" where
  "sess_mismatch a =
     (case item (py_split ''-x-'' (label a)) 2 of
        Inl e \<Rightarrow> Inl e
      | Inr t \<Rightarrow> Inr (session_label a \<noteq> t))"

definition subj_delete :: "assessor list \<Rightarrow> error + assessor list" where
  "subj_delete assessors = filter_raising subj_mismatch assessors"

definition sess_delete :: "assessor list \<Rightarrow> error + assessor list" where
  "sess_delete assessors = filter_raising sess_mismatch assessors"

text \<open>The list handed to \<open>delete_assessors\<close> for one project.\<close>

definition orphan_candidates :: "assessor list \<Rightarrow> error + assessor list" where
  "orphan_candidates assessors =
     (case subj_delete assessors of
        Inl e \<Rightarrow> Inl e
      | Inr sd \<Rightarrow>
          (case sess_delete assessors of
             Inl e \<Rightarrow> Inl e
           | Inr ss \<Rightarrow> Inr (sd @ ss)))"

fun delete_orphaned_assessors :: "xnat \<Rightarrow> string list \<Rightarrow> error option \<times> xnat" where
  "delete_orphaned_assessors x [] = (None, x)"
| "delete_orphaned_assessors x (proj # projects) =
     (case list_project_assessors x proj of
        (Inl e, x1) \<Rightarrow> (Some e, x1)
      | (Inr assessors, x1) \<Rightarrow>
          (case orphan_candidates assessors of
             Inl e \<Rightarrow> (Some e, x1)
           | Inr assessors_to_delete \<Rightarrow>
               delete_orphaned_assessors (delete_assessors x1 assessors_to_delete) projects))"

subsection \<open>The script body\<close>

definition PROJECTS :: "string list" where
  "PROJECTS = [''CIBS_COPE'', ''CIBS_BRAIN2'']"

text \<open>
  \<open>args_projects\<close> and \<open>args_subjects\<close> are \<open>args.projects\<close> and \<open>args.subjects\<close>:
  \<open>None\<close> when the flag is absent. A list is true when it is not empty.
\<close>

definition main_assessors ::
  "string list option \<Rightarrow> string list option \<Rightarrow> xnat \<Rightarrow> error option \<times> xnat" where
  "main_assessors args_projects args_subjects x =
     (let projects = (case args_projects of
                        Some ps \<Rightarrow> if ps \<noteq> [] then ps else PROJECTS
                      | None \<Rightarrow> PROJECTS);
          subjects = (case args_subjects of
                        Some ss \<Rightarrow> if ss \<noteq> [] then Some ss else None
                      | None \<Rightarrow> None)
      in case subjects of
           Some ss \<Rightarrow> (None, print (DeletingFor projects ss) x)
         | None \<Rightarrow> delete_orphaned_assessors (print (DeletingOrphaned projects) x) projects)"

section \<open>Pipeline B: mri\_t1\_segmentation\_overlay.py\<close>

subsection \<open>Paths\<close>

text \<open>\<open>os.path.join\<close>, \<open>os.path.split\<close>, \<open>os.path.basename\<close> and the root part of
  \<open>os.path.splitext\<close>, as \<open>posixpath\<close> defines them.\<close>

definition path_join :: "string \<Rightarrow> string \<Rightarrow> string" where
  "path_join a b =
     (if b \<noteq> [] \<and> hd b = CHR ''/'' then b
      else if a = [] \<or> last a = CHR ''/'' then a @ b
      else a @ ''/'' @ b)"

definition basename :: "string \<Rightarrow> string" where
  "basename p = rev (takeWhile (\<lambda>c. c \<noteq> CHR ''/'') (rev p))"

definition path_split :: "string \<Rightarrow> string \<times> string" where
  "path_split p =
     (let head = rev (dropWhile (\<lambda>c. c \<noteq> CHR ''/'') (rev p))
      in (if head \<noteq> [] \<and> head \<noteq> replicate (length head) (CHR ''/'')
          then rev (dropWhile (\<lambda>c. c = CHR ''/'') (rev head)) else head,
          basename p))"

definition splitext_root :: "string \<Rightarrow> string" where
  "splitext_root p =
     (if CHR ''.'' \<in> set (dropWhile (\<lambda>c. c = CHR ''.'') (basename p))
      then rev (tl (dropWhile (\<lambda>c. c \<noteq> CHR ''.'') (rev p)))
      else p)"

subsection \<open>Files and printed lines\<close>

type_synonym plane = "int list list"

text \<open>
  A file written by the script is a rendered figure (the array handed to \<open>imshow\<close>;
  the rendering itself is matplotlib's) or text.
\<close>

datatype content = Png plane | Text string

datatype notice =
    ProcessingDir string int
  | ScanInfo string string string
  | MatchWarning string nat
  | FilesRemaining int

text \<open>
  The file system and the standard output. \<open>resolve\<close> gives the file or directory that
  a path names: two paths of one file (a relative and an absolute one, a link, another
  spelling) have one value, which is what \<open>os.path.samefile\<close> compares. \<open>files\<close> holds
  the content of the regular files and \<open>dirs\<close> the directories, both under the value
  that \<open>resolve\<close> gives. The empty path names nothing.
\<close>

record world =
  files :: "string \<rightharpoonup> content"
  dirs :: "string set"
  resolve :: "string \<Rightarrow> string"
  printed :: "notice list"

definition say :: "notice \<Rightarrow> world \<Rightarrow> world" where
  "say n w = w\<lparr>printed := printed w @ [n]\<rparr>"

text \<open>\<open>os.path.isdir\<close>, \<open>os.path.isfile\<close>, \<open>os.path.exists\<close> and \<open>os.path.dirname\<close>.\<close>

definition isdir :: "world \<Rightarrow> string \<Rightarrow> bool" where
  "isdir w p \<longleftrightarrow> p \<noteq> [] \<and> resolve w p \<in> dirs w"

definition isfile :: "world \<Rightarrow> string \<Rightarrow> bool" where
  "isfile w p \<longleftrightarrow> p \<noteq> [] \<and> files w (resolve w p) \<noteq> None"

definition path_exists :: "world \<Rightarrow> string \<Rightarrow> bool" where
  "path_exists w p \<longleftrightarrow> isdir w p \<or> isfile w p"

definition dirname :: "string \<Rightarrow> string" where
  "dirname p = fst (path_split p)"

text \<open>The content of the file that a path names becomes \<open>c\<close>.\<close>

definition write_file :: "string \<Rightarrow> content \<Rightarrow> world \<Rightarrow> world" where
  "write_file path c w = w\<lparr>files := (files w)(resolve w path \<mapsto> c)\<rparr>"

text \<open>
  \<open>open(path, "w")\<close>: what it raises, if anything. A directory cannot be opened for
  writing; a file that is there is truncated; a new file needs its directory (the empty
  directory name is the current directory).
\<close>

definition open_w :: "string \<Rightarrow> world \<Rightarrow> error option" where
  "open_w path w =
     (if isdir w path then Some (IsADirectoryError path)
      else if isfile w path then None
      else if path = [] then Some (FileNotFoundError path)
      else if last path = CHR ''/'' then Some (IsADirectoryError path)
      else if dirname path = [] \<or> isdir w (dirname path) then None
      else if isfile w (dirname path) then Some (NotADirectoryError path)
      else Some (FileNotFoundError path))"

text \<open>\<open>with open(path, "w", encoding="utf-8") as f:\<close> and the writes of the text \<open>s\<close>.\<close>

definition write_text :: "string \<Rightarrow> string \<Rightarrow> world \<Rightarrow> error option \<times> world" where
  "write_text path s w =
     (case open_w path w of
        Some e \<Rightarrow> (Some e, w)
      | None \<Rightarrow> (None, write_file path (Text s) w))"

text \<open>
  \<open>open(path, "r", encoding="utf-8")\<close> and the whole text read. A rendered figure is
  not UTF-8 (a PNG file starts with the byte 0x89).
\<close>

definition read_text :: "string \<Rightarrow> world \<Rightarrow> error + string" where
  "read_text path w =
     (if isdir w path then Inl (IsADirectoryError path)
      else if path = [] then Inl (FileNotFoundError path)
      else
        (case files w (resolve w path) of
           None \<Rightarrow> Inl (FileNotFoundError path)
         | Some (Png m) \<Rightarrow> Inl (UnicodeDecodeError path)
         | Some (Text raw) \<Rightarrow> Inr raw))"

text \<open>
  \<open>os.makedirs(name, exist_ok=...)\<close>: the directory and the missing directories above
  it are made. \<open>heads\<close> lists the directories above a path, nearest first.
\<close>

function heads :: "string \<Rightarrow> string list" where
  "heads p =
     (if dirname p = [] \<or> length p \<le> length (dirname p) then []
      else dirname p # heads (dirname p))"
  by pat_completeness auto
termination
  by (relation "measure length") auto

declare heads.simps [simp del]

definition makedirs :: "string \<Rightarrow> bool \<Rightarrow> world \<Rightarrow> error option \<times> world" where
  "makedirs name exist_ok w =
     (if isdir w name then (if exist_ok then (None, w) else (Some (FileExistsError name), w))
      else if isfile w name then (Some (FileExistsError name), w)
      else if name = [] then (Some (FileNotFoundError name), w)
      else if \<exists>h \<in> set (heads name). isfile w h then (Some (NotADirectoryError name), w)
      else (None, w\<lparr>dirs := dirs w \<union> resolve w ` set (name # heads name)\<rparr>))"

text \<open>A \<open>for\<close> loop whose body may raise: the first exception ends the loop.\<close>

fun for_each :: "('a \<Rightarrow> 's \<Rightarrow> error option \<times> 's) \<Rightarrow> 'a list \<Rightarrow> 's \<Rightarrow> error option \<times> 's" where
  "for_each body [] s = (None, s)"
| "for_each body (x # xs) s =
     (case body x s of
        (Some e, s') \<Rightarrow> (Some e, s')
      | (None, s') \<Rightarrow> for_each body xs s')"

subsection \<open>create\_dict\_from\_csv\<close>

text \<open>\<open>rows\<close> is what \<open>csv.reader\<close> yields for the file, header first.\<close>

fun read_rows :: "string list list \<Rightarrow> (int \<rightharpoonup> string) \<Rightarrow> error + (int \<rightharpoonup> string)" where
  "read_rows [] result_dict = Inr result_dict"
| "read_rows (row # rows) result_dict =
     (case item row 1 of
        Inl e \<Rightarrow> Inl e
      | Inr index \<Rightarrow>
          (case py_int index of
             Inl e \<Rightarrow> Inl e
           | Inr key \<Rightarrow>
               (case item row 0 of
                  Inl e \<Rightarrow> Inl e
                | Inr v \<Rightarrow> read_rows rows (result_dict(key \<mapsto> v)))))"

definition create_dict_from_csv :: "string list list \<Rightarrow> error + (int \<rightharpoonup> string)" where
  "create_dict_from_csv rows =
     (case rows of
        [] \<Rightarrow> Inl StopIteration
      | header # rest \<Rightarrow> read_rows rest Map.empty)"

subsection \<open>save\_t1\_slices\_and\_labels\<close>

text \<open>
  A loaded volume: a three-dimensional array. Segmentation voxels are integer labels, which
  \<open>get_fdata\<close> hands over as floats of the same value, so that \<open>int(x)\<close> gives the label
  back; intensities are taken as integers too.
\<close>

record volume =
  shape :: "nat \<times> nat \<times> nat"
  voxel :: "nat \<Rightarrow> nat \<Rightarrow> nat \<Rightarrow> int"

definition axis_length :: "nat \<Rightarrow> volume \<Rightarrow> nat" where
  "axis_length view v =
     (case shape v of (nx, ny, nz) \<Rightarrow> if view = 0 then nx else if view = 1 then ny else nz)"

text \<open>\<open>data[i, :, :]\<close>, \<open>data[:, i, :]\<close> and \<open>data[:, :, i]\<close>.\<close>

definition plane_at :: "nat \<Rightarrow> nat \<Rightarrow> volume \<Rightarrow> error + plane" where
  "plane_at view i v =
     (case shape v of (nx, ny, nz) \<Rightarrow>
        if axis_length view v \<le> i then Inl IndexError
        else if view = 0 then Inr (map (\<lambda>y. map (\<lambda>z. voxel v i y z) [0..<nz]) [0..<ny])
        else if view = 1 then Inr (map (\<lambda>x. map (\<lambda>z. voxel v x i z) [0..<nz]) [0..<nx])
        else Inr (map (\<lambda>x. map (\<lambda>y. voxel v x y i) [0..<ny]) [0..<nx]))"

text \<open>\<open>np.rot90(m, k)\<close>: \<open>k\<close> quarter turns counterclockwise.\<close>

definition rot90 :: "nat \<Rightarrow> plane \<Rightarrow> plane" where
  "rot90 k m = ((\<lambda>a. rev (transpose a)) ^^ k) m"

definition shown :: "nat \<Rightarrow> plane \<Rightarrow> plane" where
  "shown view m = (if view = 0 then rot90 3 m else rot90 1 m)"

text \<open>\<open>np.unique\<close>: the distinct values, ascending.\<close>

definition unique :: "plane \<Rightarrow> int list" where
  "unique m = sort (remdups (concat m))"

definition slice_labels :: "plane \<Rightarrow> int list" where
  "slice_labels m = filter (\<lambda>x. 0 < x) (unique m)"

text \<open>\<open>[label_dict[i] for i in labels]\<close>: the first missing key raises KeyError.\<close>

fun lookup_all :: "(int \<rightharpoonup> string) \<Rightarrow> int list \<Rightarrow> error + string list" where
  "lookup_all label_dict [] = Inr []"
| "lookup_all label_dict (k # ks) =
     (case label_dict k of
        None \<Rightarrow> Inl (KeyError k)
      | Some name \<Rightarrow>
          (case lookup_all label_dict ks of
             Inl e \<Rightarrow> Inl e
           | Inr names \<Rightarrow> Inr (name # names)))"

definition slice_filename :: "string \<Rightarrow> string \<Rightarrow> string \<Rightarrow> nat \<Rightarrow> string" where
  "slice_filename output_dir subject_name view_label i =
     path_join output_dir (subject_name @ ''_'' @ view_label @ ''_'' @ format_03d i @ ''.png'')"

definition segment_filename :: "string \<Rightarrow> string \<Rightarrow> string \<Rightarrow> nat \<Rightarrow> string" where
  "segment_filename output_dir subject_name view_label i =
     path_join output_dir
       (subject_name @ ''_'' @ view_label @ ''_'' @ format_03d i @ ''_SEGMENT.png'')"

definition sidecar_filename :: "string \<Rightarrow> string" where
  "sidecar_filename filename = replace_from ''.png'' ''.txt'' filename"

definition sidecar_text :: "string list \<Rightarrow> string" where
  "sidecar_text string_labels = concat (map (\<lambda>label_line. label_line @ [CHR 0x0A]) string_labels)"

text \<open>
  The body of the inner loop, for one view (its index and its label) and one index \<open>i\<close>.
  The two figures are saved in the output directory, which is there when the loops run;
  the model takes \<open>savefig\<close> to succeed. The sidecar is opened at the path that
  \<open>filename.replace(".png", ".txt")\<close> gives, which replaces every occurrence in the whole
  path, once the names are looked up.
\<close>

definition save_slice ::
  "volume \<Rightarrow> volume \<Rightarrow> string \<Rightarrow> (int \<rightharpoonup> string) \<Rightarrow> string \<Rightarrow> bool \<Rightarrow>
   nat \<times> string \<Rightarrow> nat \<Rightarrow> world \<Rightarrow> error option \<times> world" where
  "save_slice mri_data seg_data output_dir label_dict subject_name save_labels view_pair i w =
     (case plane_at (fst view_pair) i mri_data of
        Inl e \<Rightarrow> (Some e, w)
      | Inr mri_plane \<Rightarrow>
          (case plane_at (fst view_pair) i seg_data of
             Inl e \<Rightarrow> (Some e, w)
           | Inr seg_plane \<Rightarrow>
               (let labels = slice_labels seg_plane
                in if length labels = 0 then (None, w)
                   else
                     (let filename = slice_filename output_dir subject_name (snd view_pair) i;
                          w1 = write_file filename (Png (shown (fst view_pair) mri_plane)) w;
                          filename2 = segment_filename output_dir subject_name (snd view_pair) i;
                          w2 = write_file filename2 (Png (shown (fst view_pair) seg_plane)) w1
                      in if save_labels then
                           (case lookup_all label_dict labels of
                              Inl e \<Rightarrow> (Some e, w2)
                            | Inr string_labels \<Rightarrow>
                                write_text (sidecar_filename filename)
                                  (sidecar_text string_labels) w2)
                         else (None, w2)))))"

definition save_view ::
  "volume \<Rightarrow> volume \<Rightarrow> string \<Rightarrow> (int \<rightharpoonup> string) \<Rightarrow> string \<Rightarrow> bool \<Rightarrow>
   nat \<times> string \<Rightarrow> world \<Rightarrow> error option \<times> world" where
  "save_view mri_data seg_data output_dir label_dict subject_name save_labels view_pair w =
     for_each (save_slice mri_data seg_data output_dir label_dict subject_name save_labels view_pair)
       [0..<axis_length (fst view_pair) mri_data] w"

text \<open>
  What the script reads: directory listings, glob results by pattern, and the volumes that
  \<open>nib.load\<close> finds at a path.
\<close>

record source_tree =
  listdir :: "string \<Rightarrow> string list"
  glob :: "string \<Rightarrow> string list"
  nib_load :: "string \<rightharpoonup> volume"

text \<open>\<open>enumerate(["sagittal", "coronal", "axial"])\<close>.\<close>

definition views :: "(nat \<times> string) list" where
  "views = [(0, ''sagittal''), (1, ''coronal''), (2, ''axial'')]"

definition save_t1_slices_and_labels ::
  "source_tree \<Rightarrow> string \<Rightarrow> string \<Rightarrow> string \<Rightarrow> (int \<rightharpoonup> string) \<Rightarrow> string \<Rightarrow> string \<Rightarrow>
   bool \<Rightarrow> world \<Rightarrow> error option \<times> world" where
  "save_t1_slices_and_labels tree mri_file seg_file output_dir label_dict subject_id scan_id
     save_labels w =
     (case nib_load tree mri_file of
        None \<Rightarrow> (Some (FileNotFoundError mri_file), w)
      | Some mri_data \<Rightarrow>
          (case nib_load tree seg_file of
             None \<Rightarrow> (Some (FileNotFoundError seg_file), w)
           | Some seg_data \<Rightarrow>
               (case (if path_exists w output_dir then (None, w)
                      else makedirs output_dir False w) of
                  (Some e, w1) \<Rightarrow> (Some e, w1)
                | (None, w1) \<Rightarrow>
                    for_each
                      (save_view mri_data seg_data output_dir label_dict
                         (''cb2_'' @ subject_id @ ''_'' @ scan_id) save_labels)
                      views w1)))"

subsection \<open>process\_all\<close>

text \<open>
  The local variables of \<open>process_all\<close> that are assigned inside its loops. They are
  function locals, so a value bound while one session directory is processed is still bound
  when the next one is; reading one that was never bound raises UnboundLocalError.
\<close>

record frame =
  matching_files :: "string list option"
  scan_id :: "string option"
  mri_path :: "string option"
  seg_path :: "string option"

definition unbound :: frame where
  "unbound = \<lparr>matching_files = None, scan_id = None, mri_path = None, seg_path = None\<rparr>"

text \<open>
  \<open>for scan_id in scan_ids:\<close> prints and globs; nothing else is in its body, so each
  pass overwrites \<open>matching_files\<close>.
\<close>

fun scan_loop ::
  "source_tree \<Rightarrow> string \<Rightarrow> string \<Rightarrow> string \<Rightarrow> string list \<Rightarrow> frame \<times> world \<Rightarrow> frame \<times> world" where
  "scan_loop tree d subj_id sess_id [] (fr, w) = (fr, w)"
| "scan_loop tree d subj_id sess_id (sid # scan_ids) (fr, w) =
     scan_loop tree d subj_id sess_id scan_ids
       (fr\<lparr>scan_id := Some sid,
           matching_files := Some (glob tree (path_join d (''*'' @ sid @ ''*/NIFTI/*.nii.gz'')))\<rparr>,
        say (ScanInfo subj_id sess_id sid) w)"

text \<open>\<open>for f in matching_files:\<close> with its \<open>if "seg" in f\<close>.\<close>

fun classify :: "string list \<Rightarrow> frame \<Rightarrow> frame" where
  "classify [] fr = fr"
| "classify (f # fs) fr =
     classify fs (if contains ''seg'' f then fr\<lparr>seg_path := Some f\<rparr> else fr\<lparr>mri_path := Some f\<rparr>)"

definition starts_with_digit :: "string \<Rightarrow> error + bool" where
  "starts_with_digit x = (case item x 0 of Inl e \<Rightarrow> Inl e | Inr c \<Rightarrow> Inr (isdigit c))"

text \<open>
  The body of the outer loop for the \<open>i\<close>-th directory \<open>d\<close>; \<open>n_dirs\<close> is
  \<open>len(directory_list)\<close>. The test on \<open>len(matching_files)\<close>, the classification and the
  call of \<open>save_t1_slices_and_labels\<close> stand after the loop over the scan identifiers, at
  the indentation of that loop, and \<open>continue\<close> there goes to the next directory. The
  arguments of the call are evaluated from left to right.
\<close>

definition process_dir ::
  "source_tree \<Rightarrow> (int \<rightharpoonup> string) \<Rightarrow> string \<Rightarrow> nat \<Rightarrow> nat \<times> string \<Rightarrow> frame \<times> world \<Rightarrow>
   error option \<times> frame \<times> world" where
  "process_dir tree result_dict output_dir n_dirs id_pair st =
     (let d = snd id_pair;
          fr = fst st;
          w1 = say (ProcessingDir d (int n_dirs - int (fst id_pair))) (snd st);
          sess_id = snd (path_split d);
          subj_id = snd (path_split (fst (path_split d)))
      in case filter_raising starts_with_digit (listdir tree d) of
           Inl e \<Rightarrow> (Some e, fr, w1)
         | Inr scan_paths \<Rightarrow>
             (let scan_ids = map (\<lambda>x. hd (py_split ''-'' x)) scan_paths
              in if scan_ids = [] then (None, fr, w1)
                 else
                   (let st2 = scan_loop tree d subj_id sess_id scan_ids (fr, w1);
                        fr2 = fst st2;
                        w2 = snd st2
                    in case matching_files fr2 of
                         None \<Rightarrow> (Some (UnboundLocalError ''matching_files''), fr2, w2)
                       | Some mf \<Rightarrow>
                           if length mf = 0 \<or> length mf > 2
                           then (None, fr2, say (MatchWarning d (length mf)) w2)
                           else
                             (let fr3 = classify mf fr2
                              in case mri_path fr3 of
                                   None \<Rightarrow> (Some (UnboundLocalError ''mri_path''), fr3, w2)
                                 | Some mp \<Rightarrow>
                                     (case seg_path fr3 of
                                        None \<Rightarrow> (Some (UnboundLocalError ''seg_path''), fr3, w2)
                                      | Some sp \<Rightarrow>
                                          (case scan_id fr3 of
                                             None \<Rightarrow> (Some (UnboundLocalError ''scan_id''), fr3, w2)
                                           | Some sid \<Rightarrow>
                                               (case save_t1_slices_and_labels tree mp sp output_dir
                                                       result_dict subj_id sid True w2 of
                                                  (e, w3) \<Rightarrow> (e, fr3, w3))))))))"

definition process_all ::
  "source_tree \<Rightarrow> string list \<Rightarrow> (int \<rightharpoonup> string) \<Rightarrow> string \<Rightarrow> world \<Rightarrow> error option \<times> frame \<times> world" where
  "process_all tree directory_list result_dict output_dir w =
     for_each (process_dir tree result_dict output_dir (length directory_list))
       (enumerate 0 directory_list) (unbound, w)"

subsection \<open>create\_hf\_dataset\<close>

text \<open>
  Reading a text file: universal newlines turn \<open>\r\n\<close> and \<open>\r\<close> into \<open>\n\<close>, and
  \<open>readlines\<close> cuts after each \<open>\n\<close>, which stays at the end of its line.
\<close>

fun universal_newlines :: "bool \<Rightarrow> string \<Rightarrow> string" where
  "universal_newlines after_cr [] = []"
| "universal_newlines after_cr (c # s) =
     (if c = CHR 0x0D then CHR 0x0A # universal_newlines True s
      else if c = CHR 0x0A \<and> after_cr then universal_newlines False s
      else c # universal_newlines False s)"

fun lines_from :: "string \<Rightarrow> string \<Rightarrow> string list" where
  "lines_from cur [] = (if cur = [] then [] else [cur])"
| "lines_from cur (c # s) =
     (if c = CHR 0x0A then (cur @ [c]) # lines_from [] s else lines_from (cur @ [c]) s)"

definition readlines :: "string \<Rightarrow> string list" where
  "readlines raw = lines_from [] (universal_newlines False raw)"

text \<open>One record of the manifest: \<open>{"file_name": filename, "text": labels}\<close>.\<close>

datatype json_line = JsonLine (file_name: string) (labels: "string list")

text \<open>
  \<open>json.dumps\<close> of such a record, with its defaults: the keys in the order of the
  dict, the separators \<open>", "\<close> and \<open>": "\<close>, and strings between double quotes (0x22) in
  which the quote, the backslash (0x5c) and every character outside space to tilde are
  escaped.
\<close>

definition hex4 :: "nat \<Rightarrow> string" where
  "hex4 n = map (\<lambda>k. ''0123456789abcdef'' ! ((n div 16 ^ k) mod 16)) [3, 2, 1, 0]"

definition escape_char :: "char \<Rightarrow> string" where
  "escape_char c =
     (if c = CHR 0x22 then [CHR 0x5C, CHR 0x22]
      else if c = CHR 0x5C then [CHR 0x5C, CHR 0x5C]
      else if c = CHR 0x0A then [CHR 0x5C, CHR ''n'']
      else if c = CHR 0x0D then [CHR 0x5C, CHR ''r'']
      else if c = CHR 0x09 then [CHR 0x5C, CHR ''t'']
      else if c = CHR 0x08 then [CHR 0x5C, CHR ''b'']
      else if c = CHR 0x0C then [CHR 0x5C, CHR ''f'']
      else if 32 \<le> (of_char c :: nat) \<and> (of_char c :: nat) \<le> 126 then [c]
      else [CHR 0x5C, CHR ''u''] @ hex4 (of_char c))"

definition json_string :: "string \<Rightarrow> string" where
  "json_string s = [CHR 0x22] @ concat (map escape_char s) @ [CHR 0x22]"

fun join_with :: "string \<Rightarrow> string list \<Rightarrow> string" where
  "join_with sep [] = []"
| "join_with sep [x] = x"
| "join_with sep (x # y # ys) = x @ sep @ join_with sep (y # ys)"

definition dumps :: "json_line \<Rightarrow> string" where
  "dumps j =
     ''{'' @ json_string ''file_name'' @ '': '' @ json_string (file_name j) @ '', ''
       @ json_string ''text'' @ '': ['' @ join_with '', '' (map json_string (labels j)) @ '']}''"

text \<open>
  \<open>shutil.copy(src, dst)\<close>: into a directory, the target is the directory joined with
  the base name of the source. Copying a file onto itself (\<open>os.path.samefile\<close>, when both
  are there) raises SameFileError; then the source is opened for reading and the target
  for writing.
\<close>

definition copy :: "string \<Rightarrow> string \<Rightarrow> world \<Rightarrow> error option \<times> world" where
  "copy src dst w =
     (let target = (if isdir w dst then path_join dst (basename src) else dst)
      in if path_exists w src \<and> path_exists w target \<and> resolve w src = resolve w target
         then (Some (SameFileError src), w)
         else if isdir w src then (Some (IsADirectoryError src), w)
         else if src = [] then (Some (FileNotFoundError src), w)
         else
           (case files w (resolve w src) of
              None \<Rightarrow> (Some (FileNotFoundError src), w)
            | Some c \<Rightarrow>
                (case open_w target w of
                   Some e \<Rightarrow> (Some e, w)
                 | None \<Rightarrow> (None, write_file target c w))))"

text \<open>
  The body of the loop over \<open>enumerate(image_files)\<close>; \<open>n_files\<close> is
  \<open>len(image_files)\<close>. The state is the text written through \<open>jsonl_output\<close> so far,
  with the world. The record is written before the image is copied.
\<close>

definition package_image ::
  "string \<Rightarrow> nat \<Rightarrow> nat \<times> string \<Rightarrow> string \<times> world \<Rightarrow> error option \<times> string \<times> world" where
  "package_image output_dir n_files ii st =
     (let image_file = snd ii;
          w1 = (if fst ii mod 1000 = 0
                then say (FilesRemaining (int n_files - int (fst ii))) (snd st) else snd st);
          filename = basename image_file;
          txt_file = splitext_root image_file @ ''.txt''
      in case read_text txt_file w1 of
           Inl e \<Rightarrow> (Some e, fst st, w1)
         | Inr raw \<Rightarrow>
             (let json_line = JsonLine filename (map strip (readlines raw));
                  written = fst st @ dumps json_line @ [CHR 0x0A]
              in case copy image_file output_dir w1 of
                   (e, w2) \<Rightarrow> (e, written, w2)))"

text \<open>
  \<open>open(output_file, "w")\<close> empties the manifest when the \<open>with\<close> block is entered.
  What is written through the handle is buffered, and the model has it reach the file when
  the block is left, with or without an exception (Python flushes earlier once 8192 bytes
  are pending, which only a run that reads or overwrites its own manifest can see).
\<close>

definition create_hf_dataset ::
  "string list \<Rightarrow> string \<Rightarrow> string \<Rightarrow> world \<Rightarrow> error option \<times> world" where
  "create_hf_dataset image_files output_dir json_file_name w =
     (case makedirs output_dir True w of
        (Some e, w1) \<Rightarrow> (Some e, w1)
      | (None, w1) \<Rightarrow>
          (let output_file = path_join output_dir json_file_name
           in case open_w output_file w1 of
                Some e \<Rightarrow> (Some e, w1)
              | None \<Rightarrow>
                  (case for_each (package_image output_dir (length image_files))
                          (enumerate 0 image_files)
                          ([], write_file output_file (Text []) w1) of
                     (e, written, w2) \<Rightarrow> (e, write_file output_file (Text written) w2))))"

section \<open>Concrete inputs\<close>

text \<open>
  An archive with one assessor of subject VCP-002, first answering every request, then
  letting the first request time out; and two assessors whose recorded labels disagree with
  the tokens of their own label.
\<close>

definition vcp2 :: assessor where
  "vcp2 = \<lparr>project_id = ''CIBS_COPE'', subject_label = ''VCP-002'', session_label = ''S1'',
            label = ''CIBS_COPE-x-VCP-002-x-S1-x-fs''\<rparr>"

definition moved_both :: assessor where
  "moved_both = \<lparr>project_id = ''CIBS_COPE'', subject_label = ''VCP-009'', session_label = ''S9'',
            label = ''CIBS_COPE-x-VCP-002-x-S1-x-fs''\<rparr>"

definition moved_subject :: assessor where
  "moved_subject = \<lparr>project_id = ''CIBS_COPE'', subject_label = ''VCP-009'', session_label = ''S1'',
            label = ''CIBS_COPE-x-VCP-002-x-S1-x-lst''\<rparr>"

definition quiet_archive :: xnat where
  "quiet_archive = \<lparr>stored = [vcp2], pending = [], stdout = []\<rparr>"

definition slow_archive :: xnat where
  "slow_archive = \<lparr>stored = [vcp2], pending = [TimesOut], stdout = []\<rparr>"

text \<open>
  A catalog with one row, volumes with the same value in every voxel, and session
  directories: one with a scan of three files before a scan of two, one whose only scan has
  an MRI file and no segmentation, and that one again after a complete session.
\<close>

definition empty_world :: world where
  "empty_world = \<lparr>files = Map.empty, dirs = {}, resolve = (\<lambda>p. p), printed = []\<rparr>"

definition catalog :: "int \<rightharpoonup> string" where
  "catalog = [17 \<mapsto> ''Left-Hippocampus'']"

definition vol :: "nat \<times> nat \<times> nat \<Rightarrow> int \<Rightarrow> volume" where
  "vol sh v = \<lparr>shape = sh, voxel = (\<lambda>x y z. v)\<rparr>"

definition two_scans :: source_tree where
  "two_scans = \<lparr>
     listdir = (\<lambda>d. if d = ''root/subj1/sess1'' then [''301-MPRAGE'', ''401-MPRAGE'', ''notes''] else []),
     glob = (\<lambda>p. if p = ''root/subj1/sess1/*301*/NIFTI/*.nii.gz''
                   then [''root/subj1/sess1/301-MPRAGE/NIFTI/a.nii.gz'',
                         ''root/subj1/sess1/301-MPRAGE/NIFTI/b.nii.gz'',
                         ''root/subj1/sess1/301-MPRAGE/NIFTI/c.nii.gz'']
                   else if p = ''root/subj1/sess1/*401*/NIFTI/*.nii.gz''
                   then [''root/subj1/sess1/401-MPRAGE/NIFTI/t1.nii.gz'',
                         ''root/subj1/sess1/401-MPRAGE/NIFTI/t1_seg.nii.gz'']
                   else []),
     nib_load = [''root/subj1/sess1/401-MPRAGE/NIFTI/t1.nii.gz'' \<mapsto> vol (1, 1, 1) 100,
                 ''root/subj1/sess1/401-MPRAGE/NIFTI/t1_seg.nii.gz'' \<mapsto> vol (1, 1, 1) 17]\<rparr>"

definition mri_only :: source_tree where
  "mri_only = \<lparr>
     listdir = (\<lambda>d. if d = ''root/subj1/sess1'' then [''301-MPRAGE''] else []),
     glob = (\<lambda>p. if p = ''root/subj1/sess1/*301*/NIFTI/*.nii.gz''
                   then [''root/subj1/sess1/301-MPRAGE/NIFTI/t1.nii.gz''] else []),
     nib_load = [''root/subj1/sess1/301-MPRAGE/NIFTI/t1.nii.gz'' \<mapsto> vol (1, 1, 1) 100]\<rparr>"

definition then_mri_only :: source_tree where
  "then_mri_only = \<lparr>
     listdir = (\<lambda>d. if d = ''root/subj1/sess1'' then [''401-MPRAGE'']
                     else if d = ''root/subj2/sess1'' then [''301-MPRAGE''] else []),
     glob = (\<lambda>p. if p = ''root/subj1/sess1/*401*/NIFTI/*.nii.gz''
                   then [''root/subj1/sess1/401-MPRAGE/NIFTI/t1.nii.gz'',
                         ''root/subj1/sess1/401-MPRAGE/NIFTI/t1_seg.nii.gz'']
                   else if p = ''root/subj2/sess1/*301*/NIFTI/*.nii.gz''
                   then [''root/subj2/sess1/301-MPRAGE/NIFTI/t1.nii.gz'']
                   else []),
     nib_load = [''root/subj1/sess1/401-MPRAGE/NIFTI/t1.nii.gz'' \<mapsto> vol (1, 1, 1) 100,
                 ''root/subj1/sess1/401-MPRAGE/NIFTI/t1_seg.nii.gz'' \<mapsto> vol (1, 1, 1) 17,
                 ''root/subj2/sess1/301-MPRAGE/NIFTI/t1.nii.gz'' \<mapsto> vol (1, 1, 1) 90]\<rparr>"

text \<open>
  A catalog that also names the value -1, a segmentation whose first sagittal plane holds
  the value 5, which the catalog does not name, a session with that segmentation, and the
  files of one extracted slice.
\<close>

definition signed_catalog :: "int \<rightharpoonup> string" where
  "signed_catalog = [- 1 \<mapsto> ''Outside'', 17 \<mapsto> ''Left-Hippocampus'']"



definition sliced :: world where
  "sliced = \<lparr>files = [''out/cb2_subj1_401_axial_000.png'' \<mapsto> Png [[100]],
                      ''out/cb2_subj1_401_axial_000.txt'' \<mapsto> Text (''Left-Hippocampus'' @ [CHR 0x0A])],
             dirs = {''out''}, resolve = (\<lambda>p. p), printed = []\<rparr>"

section \<open>Properties of Pipeline A\<close>

subsection \<open>What a call of delete\_assessor does to the archive\<close>

lemma stored_print [simp]: "stored (print m x) = stored x"
  and pending_print [simp]: "pending (print m x) = pending x"
  and stdout_print [simp]: "stdout (print m x) = stdout x @ [m]"
  by (simp_all add: print_def)

lemma exists_print [simp]:
  "exists_assessor (print m x) proj subj sess assr = exists_assessor x proj subj sess assr"
  by (simp add: exists_assessor_def)

lemma stored_request [simp]: "stored (snd (request x)) = stored x"
  by (simp add: request_def split: list.splits)

lemma filter_absent:
  "\<not> exists_assessor x proj subj sess assr \<Longrightarrow>
   filter (\<lambda>a. \<not> has_key proj subj sess assr a) (stored x) = stored x"
  by (auto simp: exists_assessor_def filter_id_conv)

lemma delete_assessor_stored:
  "stored (snd (delete_assessor x proj subj sess assr)) =
     filter (\<lambda>a. \<not> has_key proj subj sess assr a) (stored x)"
proof (induction x proj subj sess assr rule: delete_assessor.induct)
  case (1 x proj subj sess assr)
  obtain r x1 where r1: "request x = (r, x1)" by (cases "request x")
  have s1: "stored x1 = stored x" using stored_request [of x] r1 by simp
  show ?case
  proof (cases r)
    case TimesOut
    have "stored (snd (delete_assessor (print Retrying x1) proj subj sess assr)) =
        filter (\<lambda>a. \<not> has_key proj subj sess assr a) (stored (print Retrying x1))"
      using 1(2) [of r x1] r1 TimesOut by simp
    with r1 s1 TimesOut show ?thesis
      by (subst delete_assessor.simps) simp
  next
    case Responds
    show ?thesis
    proof (cases "exists_assessor x1 proj subj sess assr")
      case False
      with r1 Responds s1 filter_absent [of x1 proj subj sess assr] show ?thesis
        by (subst delete_assessor.simps) simp
    next
      case True
      obtain r' x2 where r2: "request x1 = (r', x2)" by (cases "request x1")
      have s2: "stored x2 = stored x" using stored_request [of x1] r2 s1 by simp
      show ?thesis
      proof (cases r')
        case TimesOut
        have "stored (snd (delete_assessor (print Retrying x2) proj subj sess assr)) =
            filter (\<lambda>a. \<not> has_key proj subj sess assr a) (stored (print Retrying x2))"
          using 1(1) [of r x1 r' x2] r1 r2 Responds True TimesOut by simp
        with r1 r2 Responds True s2 TimesOut show ?thesis
          by (subst delete_assessor.simps) simp
      next
        case R: Responds
        with r1 r2 Responds True s2 show ?thesis
          by (subst delete_assessor.simps) (simp add: remove_assessor_def)
      qed
    qed
  qed
qed

lemma delete_assessor_timeout:
  assumes "pending x = TimesOut # rs"
  shows "delete_assessor x proj subj sess assr =
    (None, snd (delete_assessor (print Retrying (x\<lparr>pending := rs\<rparr>)) proj subj sess assr))"
  using assms by (subst delete_assessor.simps) (simp add: request_def)

lemma delete_assessor_answered:
  assumes "pending x = []"
  shows "delete_assessor x proj subj sess assr =
    (if exists_assessor x proj subj sess assr
     then (Some True, remove_assessor proj subj sess assr x) else (Some False, x))"
  using assms by (subst delete_assessor.simps) (simp add: request_def)


lemma split_vcp2: "py_split ''-x-'' ''CIBS_COPE-x-VCP-002-x-S1-x-fs'' = [''CIBS_COPE'', ''VCP-002'', ''S1'', ''fs'']"
  by (simp add: py_split_def split_from.simps)

lemma split_lst: "py_split ''-x-'' ''CIBS_COPE-x-VCP-002-x-S1-x-lst'' = [''CIBS_COPE'', ''VCP-002'', ''S1'', ''lst'']"
  by (simp add: py_split_def split_from.simps)

subsection \<open>Subject mode\<close>

text \<open>
  C1. With a non-empty \<open>--subjects\<close> list the script should delete the assessors of the
  named subjects in the named projects. The script body only prints in that branch:
  \<open>delete_all_assessors\<close>, which would delete them, is never called. On an archive that
  holds one assessor of subject VCP-002 in CIBS\_COPE, the run with
  \<open>--projects CIBS_COPE --subjects VCP-002\<close> leaves the archive as it was, while
  \<open>delete_all_assessors\<close> on the same archive empties it.
\<close>

theorem subject_mode_deletes_nothing:
  "main_assessors (Some [''CIBS_COPE'']) (Some [''VCP-002'']) quiet_archive =
     (None, quiet_archive\<lparr>stdout := [DeletingFor [''CIBS_COPE''] [''VCP-002'']]\<rparr>)
   \<and> stored (snd (delete_all_assessors quiet_archive ''CIBS_COPE'' ''VCP-002'')) = []"
  by (simp add: main_assessors_def quiet_archive_def print_def delete_all_assessors_def
      list_project_assessors_def request_def vcp2_def delete_assessors_def
      delete_assessor.simps exists_assessor_def has_key_def remove_assessor_def truthy_def)

subsection \<open>delete\_assessor and the retry\<close>

text \<open>
  C4. \<open>delete_assessor\<close> should return false without side effects when the assessor
  does not exist, and delete it and return true when it exists. When the first request
  times out and the second is answered, the assessor that exists is deleted by the retry,
  but the call returns \<open>None\<close>, not true: the handler does not return what the retry
  returns.
\<close>

theorem delete_assessor_after_timeout:
  "delete_assessor slow_archive ''CIBS_COPE'' ''VCP-002'' ''S1'' ''CIBS_COPE-x-VCP-002-x-S1-x-fs'' =
     (None, \<lparr>stored = [], pending = [], stdout = [Retrying]\<rparr>)"
  by (simp add: slow_archive_def vcp2_def delete_assessor.simps request_def print_def
      exists_assessor_def has_key_def remove_assessor_def)


text \<open>
  When no request times out, the call returns false and changes nothing for an assessor that
  does not exist, and returns true after deleting one that exists.
\<close>

lemma delete_assessor_no_timeout:
  assumes "pending x = []"
  shows "(\<not> exists_assessor x proj subj sess assr \<longrightarrow>
            delete_assessor x proj subj sess assr = (Some False, x))
       \<and> (exists_assessor x proj subj sess assr \<longrightarrow>
            fst (delete_assessor x proj subj sess assr) = Some True
          \<and> \<not> exists_assessor (snd (delete_assessor x proj subj sess assr)) proj subj sess assr)"
  using assms
  by (auto simp: delete_assessor_answered remove_assessor_def exists_assessor_def)

text \<open>
  C6. When the lookup of \<open>delete_assessor\<close> raises a read-timeout, the call returns
  \<open>None\<close> whatever the retry returns, the archive ends without the assessor all the
  same, and the loop of \<open>delete_assessors\<close> prints the failure line for that item.
\<close>

theorem timeout_reported_as_failure:
  assumes "pending x = TimesOut # rs"
  shows "fst (delete_assessor x proj subj sess assr) = None
       \<and> stored (snd (delete_assessor x proj subj sess assr)) =
           filter (\<lambda>a. \<not> has_key proj subj sess assr a) (stored x)
       \<and> delete_loop total_length n (s # rest) x =
           delete_loop total_length (n + 1) rest
             (print (FailedToDelete (label s))
                (snd (delete_assessor (print (WorkingOn (n + 1) (total_length - (n + 1))) x)
                        (project_id s) (subject_label s) (session_label s) (label s))))"
proof -
  have p: "pending (print (WorkingOn (n + 1) (total_length - (n + 1))) x) = TimesOut # rs"
    using assms by simp
  have "fst (delete_assessor (print (WorkingOn (n + 1) (total_length - (n + 1))) x)
               (project_id s) (subject_label s) (session_label s) (label s)) = None"
    by (simp add: delete_assessor_timeout [OF p])
  then have loop: "delete_loop total_length n (s # rest) x =
           delete_loop total_length (n + 1) rest
             (print (FailedToDelete (label s))
                (snd (delete_assessor (print (WorkingOn (n + 1) (total_length - (n + 1))) x)
                        (project_id s) (subject_label s) (session_label s) (label s))))"
    by (auto simp: Let_def truthy_def split: prod.splits)
  show ?thesis
    using loop by (simp add: delete_assessor_timeout [OF assms] delete_assessor_stored)
qed

theorem timeout_reported_as_failure_witness:
  "pending slow_archive = TimesOut # []
   \<and> delete_assessors slow_archive [vcp2] =
       \<lparr>stored = [], pending = [],
        stdout = [WorkingOn 1 0, Retrying, FailedToDelete ''CIBS_COPE-x-VCP-002-x-S1-x-fs'']\<rparr>"
  using timeout_reported_as_failure [of slow_archive "[]" "''CIBS_COPE''" "''VCP-002''" "''S1''"
      "''CIBS_COPE-x-VCP-002-x-S1-x-fs''" 1 0 vcp2 "[]"]
  by (simp add: slow_archive_def vcp2_def delete_assessors_def delete_assessor.simps request_def
      print_def exists_assessor_def has_key_def remove_assessor_def truthy_def)


section \<open>Properties of Pipeline B\<close>

subsection \<open>process\_all\<close>

text \<open>
  \<open>split\<close> never returns an empty list, so \<open>x.split("-")[0]\<close> is always there; and the
  loop over the scan identifiers leaves the matches of the last one.
\<close>

lemma split_from_not_Nil: "split_from sep cur s \<noteq> []"
  by (induction sep cur s rule: split_from.induct) (subst split_from.simps, simp)

lemma py_split_not_Nil: "py_split sep s \<noteq> []"
  by (simp add: py_split_def split_from_not_Nil)

lemma scan_loop_last:
  "scan_ids \<noteq> [] \<Longrightarrow>
   matching_files (fst (scan_loop tree d subj_id sess_id scan_ids (fr, w))) =
     Some (glob tree (path_join d (''*'' @ last scan_ids @ ''*/NIFTI/*.nii.gz'')))"
proof (induction scan_ids arbitrary: fr w)
  case Nil
  then show ?case by simp
next
  case (Cons sid scan_ids)
  then show ?case by (cases "scan_ids = []") simp_all
qed

text \<open>
  C2. Every scan identifier of a session should be checked: a warning and a skip when its
  glob matches no file or more than two, extraction otherwise. The test stands after the
  loop over the scan identifiers, so it sees the matches of the last identifier only. In a
  session with scan 301 (three matching files) before scan 401 (an MRI file and a
  segmentation), the run prints no warning for scan 301 and extracts scan 401.
\<close>

theorem warning_only_for_last_scan:
  "fst (process_all two_scans [''root/subj1/sess1''] catalog ''out'' empty_world) = None
   \<and> printed (snd (snd (process_all two_scans [''root/subj1/sess1''] catalog ''out'' empty_world))) =
       [ProcessingDir ''root/subj1/sess1'' 1,
        ScanInfo ''subj1'' ''sess1'' ''301'',
        ScanInfo ''subj1'' ''sess1'' ''401'']
   \<and> files (snd (snd (process_all two_scans [''root/subj1/sess1''] catalog ''out'' empty_world)))
        ''out/cb2_subj1_401_axial_000.txt'' = Some (Text (''Left-Hippocampus'' @ [CHR 0x0A]))"
  by code_simp

text \<open>
  C3. A session whose matched files hold an MRI volume and no segmentation should fail
  gracefully, without an extraction. As the first session of a run it ends the run with
  UnboundLocalError for \<open>seg_path\<close>; after a complete session, \<open>seg_path\<close> still
  holds that session's segmentation, and the slices are extracted with it.
\<close>

theorem mri_only_session_crashes:
  "fst (process_all mri_only [''root/subj1/sess1''] catalog ''out'' empty_world) =
     Some (UnboundLocalError ''seg_path'')
   \<and> fst (process_all then_mri_only [''root/subj1/sess1'', ''root/subj2/sess1''] catalog ''out''
          empty_world) = None
   \<and> files (snd (snd (process_all then_mri_only [''root/subj1/sess1'', ''root/subj2/sess1'']
          catalog ''out'' empty_world))) ''out/cb2_subj2_301_axial_000_SEGMENT.png'' = Some (Png [[17]])"
  by code_simp

subsection \<open>save\_t1\_slices\_and\_labels\<close>

lemma files_say [simp]: "files (say n w) = files w"
  and printed_say [simp]: "printed (say n w) = printed w @ [n]"
  and dirs_say [simp]: "dirs (say n w) = dirs w"
  and resolve_say [simp]: "resolve (say n w) = resolve w"
  by (simp_all add: say_def)

lemma files_write_file [simp]: "files (write_file path c w) = (files w)(resolve w path \<mapsto> c)"
  and printed_write_file [simp]: "printed (write_file path c w) = printed w"
  and dirs_write_file [simp]: "dirs (write_file path c w) = dirs w"
  and resolve_write_file [simp]: "resolve (write_file path c w) = resolve w"
  by (simp_all add: write_file_def)

lemma slice_labels_set: "set (slice_labels m) = {v \<in> set (concat m). 0 < v}"
  by (auto simp: slice_labels_def unique_def)

lemma slice_labels_sorted: "sorted (slice_labels m)"
  by (simp add: slice_labels_def unique_def sorted_wrt_filter)

lemma slice_labels_distinct: "distinct (slice_labels m)"
  by (simp add: slice_labels_def unique_def)

lemma slice_labels_eq:
  "slice_labels m = sorted_list_of_set {v \<in> set (concat m). 0 < v}"
  using sorted_list_of_set.idem_if_sorted_distinct [OF slice_labels_sorted slice_labels_distinct, of m]
  by (simp add: slice_labels_set)

lemma slice_labels_empty:
  "slice_labels m = [] \<longleftrightarrow> {v \<in> set (concat m). 0 < v} = {}"
  using slice_labels_set [of m] set_empty [of "slice_labels m"] by simp

lemma lookup_all_total:
  "\<forall>k \<in> set ks. k \<in> dom label_dict \<Longrightarrow>
   lookup_all label_dict ks = Inr (map (\<lambda>k. the (label_dict k)) ks)"
  by (induction ks) auto


text \<open>
  A counterexample to C7 as stated, which speaks of the nonzero values of the segmentation
  plane. The script keeps the values above zero (\<open>slice_labels > 0\<close>): a plane whose
  only value is -1 has a nonzero value, named by the catalog, and no file is written for it.
\<close>

theorem negative_value_no_sidecar:
  "plane_at 0 0 (vol (1, 1, 1) (- 1)) = Inr [[- 1]]
   \<and> {v \<in> set (concat [[- 1 :: int]]). v \<noteq> 0} \<noteq> {}
   \<and> signed_catalog (- 1) = Some ''Outside''
   \<and> save_slice (vol (1, 1, 1) 100) (vol (1, 1, 1) (- 1)) ''out'' signed_catalog ''cb2_subj1_401''
        True (0, ''sagittal'') 0 empty_world = (None, empty_world)"
  by (simp add: plane_at_def axis_length_def vol_def signed_catalog_def save_slice_def
      slice_labels_def unique_def)





end
